theory Spec2Isabelle
  imports Main "HOL-Library.Sublist"
begin

section \<open>JavaScript values\<close>

text \<open>
  The repository's only code is \<^verbatim>\<open>tailwind.config.cjs\<close>, a CommonJS module whose body is
  one assignment of an object literal to \<^verbatim>\<open>module.exports\<close>. The literal is built from
  strings, arrays and objects; the value type below also has the other kinds of JavaScript
  value, so that saying which kind a field holds is a statement with content. An object
  is its list of own properties in insertion order, the order the literal writes them in.
\<close>

datatype jsval =
    JUndefined
  | JNull
  | JBool bool
  | JNum int
  | JStr string
  | JArr "jsval list"
  | JObj "(string \<times> jsval) list"
  | JFun string

section \<open>The configuration module\<close>

text \<open>
  \<^verbatim>\<open>
  module.exports = {
    darkMode: "class", // use class strategy so we can toggle with document.documentElement.classList
    content: ["./src/**/*.{astro,html,js,jsx,ts,tsx}"],
    theme: {
      extend: {},
    },
    plugins: [],
  };
  \<close>
  \<open>module_exports\<close> is the value of the right-hand side.
\<close>

definition module_exports :: jsval where
  "module_exports =
     JObj [
       (''darkMode'', JStr ''class''),
       (''content'', JArr [JStr ''./src/**/*.{astro,html,js,jsx,ts,tsx}'']),
       (''theme'', JObj [
          (''extend'', JObj [])
        ]),
       (''plugins'', JArr [])
     ]"

text \<open>
  The module body is a statement: it stores that value in the \<^verbatim>\<open>exports\<close> property of the
  \<^verbatim>\<open>module\<close> object the loader passes in. It reads no variable and calls nothing, so
  the state it runs in is the module object and the global object, and evaluating the
  module only replaces \<^verbatim>\<open>module.exports\<close>.
\<close>

record node_module =
  exports :: jsval

record js_state =
  module :: node_module
  global :: "(string \<times> jsval) list"

definition eval_module :: "js_state \<Rightarrow> js_state" where
  "eval_module s = s\<lparr>module := (module s)\<lparr>exports := module_exports\<rparr>\<rparr>"

section \<open>Observing a value\<close>

text \<open>
  \<open>own_keys\<close> is \<^verbatim>\<open>Object.keys\<close> on an object; \<open>field\<close> reads an own property of an
  object. Both are \<open>None\<close> on a value that is not an object, and \<open>field\<close> is \<open>None\<close> for
  a property the object does not have.
\<close>

fun own_keys :: "jsval \<Rightarrow> string list option" where
  "own_keys (JObj ps) = Some (map fst ps)"
| "own_keys _ = None"

fun field :: "string \<Rightarrow> jsval \<Rightarrow> jsval option" where
  "field k (JObj ps) = map_of ps k"
| "field k _ = None"

fun is_string :: "jsval \<Rightarrow> bool" where
  "is_string (JStr s) = True"
| "is_string _ = False"

fun is_array :: "jsval \<Rightarrow> bool" where
  "is_array (JArr xs) = True"
| "is_array _ = False"

fun is_object :: "jsval \<Rightarrow> bool" where
  "is_object (JObj ps) = True"
| "is_object _ = False"

fun all_strings :: "jsval list \<Rightarrow> bool" where
  "all_strings [] = True"
| "all_strings (x # xs) = (is_string x \<and> all_strings xs)"

text \<open>A value is function free when no function occurs in it at any depth.\<close>

fun function_free :: "jsval \<Rightarrow> bool" where
  "function_free (JFun f) = False"
| "function_free (JArr xs) = list_all function_free xs"
| "function_free (JObj ps) = list_all (\<lambda>p. function_free (snd p)) ps"
| "function_free _ = True"

section \<open>What the consuming tool does with the configuration\<close>

text \<open>
  The repository holds no code that reads the configuration: the CSS build tool that does
  is a third-party program. Two statements about the configuration speak of what the
  tool does with it, the files a content pattern selects and the theme that results. The
  definitions of this section write down the tool's documented reading of a content
  pattern and of the \<open>theme\<close> field, so that those statements can be made about the
  literal of this repository. They are not translations of code of the repository.
\<close>

subsection \<open>Glob patterns\<close>

text \<open>
  A pattern is read left to right. \<^verbatim>\<open>**/\<close> stands for any number of directories, also
  none; \<^verbatim>\<open>**\<close> alone for any text; \<^verbatim>\<open>*\<close> for any text without a slash;
  \<^verbatim>\<open>{a,b,c}\<close> for one of the alternatives between the commas; any other character for
  itself. A brace that is never closed is an ordinary character.
\<close>

datatype glob_token = Lit char | Star | Dirs | GlobStar | Braces "string list"

fun split_commas :: "string \<Rightarrow> string list" where
  "split_commas [] = [[]]"
| "split_commas (c # cs) =
     (if c = CHR '','' then [] # split_commas cs
      else (case split_commas cs of [] \<Rightarrow> [[c]] | w # ws \<Rightarrow> (c # w) # ws))"

function glob_tokens :: "string \<Rightarrow> glob_token list" where
  "glob_tokens [] = []"
| "glob_tokens (c # cs) =
     (if c = CHR ''*'' \<and> take 2 cs = ''*/'' then Dirs # glob_tokens (drop 2 cs)
      else if c = CHR ''*'' \<and> take 1 cs = ''*'' then GlobStar # glob_tokens (drop 1 cs)
      else if c = CHR ''*'' then Star # glob_tokens cs
      else if c = CHR ''{'' \<and> CHR ''}'' \<in> set cs then
        Braces (split_commas (takeWhile (\<lambda>x. x \<noteq> CHR ''}'') cs))
          # glob_tokens (drop 1 (dropWhile (\<lambda>x. x \<noteq> CHR ''}'') cs))
      else Lit c # glob_tokens cs)"
  by pat_completeness auto
termination
  by (relation "measure length")
     (auto simp: less_Suc_eq_le le_trans [OF diff_le_self length_dropWhile_le])

text \<open>
  What may remain of a path after \<^verbatim>\<open>*\<close> has taken its share: the path itself, or the
  path without some of its leading characters, none of them a slash. After \<^verbatim>\<open>**/\<close>: the
  path itself, or what follows one of its slashes.
\<close>

fun star_tails :: "string \<Rightarrow> string list" where
  "star_tails [] = [[]]"
| "star_tails (c # cs) = (c # cs) # (if c = CHR ''/'' then [] else star_tails cs)"

fun dir_tails :: "string \<Rightarrow> string list" where
  "dir_tails [] = []"
| "dir_tails (c # cs) = (if c = CHR ''/'' then cs # dir_tails cs else dir_tails cs)"

text \<open>
  A path matches when the tokens use it up exactly. The path is written the way the
  pattern is, relative to the project directory and with the leading \<^verbatim>\<open>./\<close>. The
  reading is a generous one: it leaves out the refinements by which the tool's matcher
  rejects more paths (a \<^verbatim>\<open>*\<close> that does not match a leading dot, for one), so a bound on
  the paths matched here is a bound on the paths the tool matches.
\<close>

fun gmatch :: "glob_token list \<Rightarrow> string \<Rightarrow> bool" where
  "gmatch [] s = (s = [])"
| "gmatch (Lit c # ts) s = (case s of [] \<Rightarrow> False | x # xs \<Rightarrow> x = c \<and> gmatch ts xs)"
| "gmatch (Star # ts) s = list_ex (gmatch ts) (star_tails s)"
| "gmatch (Dirs # ts) s = list_ex (gmatch ts) (s # dir_tails s)"
| "gmatch (GlobStar # ts) s = list_ex (gmatch ts) (suffixes s)"
| "gmatch (Braces alts # ts) s =
     list_ex (\<lambda>a. prefix a s \<and> gmatch ts (drop (length a) s)) alts"

text \<open>
  A file is scanned for class names when its path matches one of the patterns of the
  \<open>content\<close> field.
\<close>

definition scanned :: "jsval \<Rightarrow> string \<Rightarrow> bool" where
  "scanned cfg p =
     (case field ''content'' cfg of
        Some (JArr xs) \<Rightarrow>
          list_ex (\<lambda>x. case x of JStr g \<Rightarrow> gmatch (glob_tokens g) p | _ \<Rightarrow> False) xs
      | _ \<Rightarrow> False)"

subsection \<open>The resolved theme\<close>

text \<open>
  The tool starts from its default theme, a list of keys with their values. A key of the
  configuration's \<open>theme\<close> other than \<open>extend\<close> replaces the default value of that key as
  a whole (\<open>theme_replacements\<close>, put in front of the defaults they shadow by
  \<open>defaults_into\<close>); an entry of \<open>theme.extend\<close> is merged into the value the key has by
  then, or added when the key is new (\<open>extend_key\<close>). How two values merge is the tool's
  business and stays a parameter, \<open>mrg\<close>.
\<close>

fun theme_replacements :: "jsval \<Rightarrow> (string \<times> jsval) list" where
  "theme_replacements (JObj ps) = filter (\<lambda>p. fst p \<noteq> ''extend'') ps"
| "theme_replacements _ = []"

fun theme_extensions :: "jsval \<Rightarrow> (string \<times> jsval) list" where
  "theme_extensions (JObj ps) =
     (case map_of ps ''extend'' of Some (JObj es) \<Rightarrow> es | _ \<Rightarrow> [])"
| "theme_extensions _ = []"

definition defaults_into ::
  "(string \<times> jsval) list \<Rightarrow> (string \<times> jsval) list \<Rightarrow> (string \<times> jsval) list" where
  "defaults_into target source = target @ filter (\<lambda>p. fst p \<notin> fst ` set target) source"

definition extend_key ::
  "(jsval \<Rightarrow> jsval \<Rightarrow> jsval) \<Rightarrow> (string \<times> jsval) list \<Rightarrow> string \<times> jsval
     \<Rightarrow> (string \<times> jsval) list" where
  "extend_key mrg acc e =
     (if fst e \<in> fst ` set acc
      then map (\<lambda>p. if fst p = fst e then (fst p, mrg (snd p) (snd e)) else p) acc
      else acc @ [e])"

definition resolve_theme ::
  "(jsval \<Rightarrow> jsval \<Rightarrow> jsval) \<Rightarrow> (string \<times> jsval) list \<Rightarrow> jsval
     \<Rightarrow> (string \<times> jsval) list" where
  "resolve_theme mrg dflt theme =
     foldl (extend_key mrg) (defaults_into (theme_replacements theme) dflt)
       (theme_extensions theme)"

section \<open>Facts about glob matching\<close>

text \<open>Every token hands the rest of the pattern a suffix of the path it was given.\<close>

lemma star_tails_suffix: "r \<in> set (star_tails s) \<Longrightarrow> suffix r s"
  by (induction s) (auto simp: suffix_Cons split: if_splits)

lemma dir_tails_suffix: "r \<in> set (dir_tails s) \<Longrightarrow> suffix r s"
  by (induction s) (auto simp: suffix_Cons split: if_splits)

lemma gmatch_step_suffix:
  "gmatch (t # ts) s \<Longrightarrow> \<exists>r. suffix r s \<and> gmatch ts r"
proof (cases t)
  case (Lit c)
  assume "gmatch (t # ts) s"
  with Lit obtain xs where "s = c # xs" "gmatch ts xs"
    by (auto split: list.splits)
  then show ?thesis by (auto simp: suffix_Cons)
next
  case Star
  assume "gmatch (t # ts) s"
  with Star show ?thesis
    by (auto simp: list_ex_iff dest: star_tails_suffix)
next
  case Dirs
  assume "gmatch (t # ts) s"
  with Dirs show ?thesis
    by (auto simp: list_ex_iff dest: dir_tails_suffix)
next
  case GlobStar
  assume "gmatch (t # ts) s"
  with GlobStar show ?thesis
    by (auto simp: list_ex_iff)
next
  case (Braces alts)
  assume "gmatch (t # ts) s"
  with Braces obtain a :: string where "gmatch ts (drop (length a) s)"
    by (auto simp: list_ex_iff)
  then show ?thesis by (blast intro: suffix_drop)
qed

text \<open>A pattern that begins with literal text matches only paths that begin with it.\<close>

lemma gmatch_literal_prefix:
  "gmatch (map Lit a @ ts) s \<Longrightarrow> prefix a s"
  by (induction a arbitrary: s) (auto split: list.splits)

text \<open>
  A pattern that ends with a literal character and a brace group matches only paths that
  end with that character and one of the alternatives.
\<close>

lemma gmatch_extension:
  "gmatch (pre @ [Lit c, Braces alts]) s \<Longrightarrow> \<exists>e. e \<in> set alts \<and> suffix (c # e) s"
proof (induction pre arbitrary: s)
  case Nil
  then obtain xs where s: "s = c # xs" and "gmatch [Braces alts] xs"
    by (auto split: list.splits)
  then obtain a where "a \<in> set alts" "prefix a xs" "drop (length a) xs = []"
    by (auto simp: list_ex_iff)
  then have "a \<in> set alts" "xs = a"
    by (auto simp: prefix_def)
  with s show ?case by auto
next
  case (Cons t pre)
  then have "gmatch (t # (pre @ [Lit c, Braces alts])) s" by simp
  then obtain r where r: "suffix r s" "gmatch (pre @ [Lit c, Braces alts]) r"
    using gmatch_step_suffix by blast
  from Cons.IH [OF r(2)] obtain e where "e \<in> set alts" "suffix (c # e) r" by blast
  with r(1) show ?case by (blast intro: suffix_order.trans)
qed

lemma glob_tokens_content:
  "glob_tokens ''./src/**/*.{astro,html,js,jsx,ts,tsx}'' =
     map Lit ''./src/'' @ [Dirs, Star, Lit CHR ''.'',
       Braces [''astro'', ''html'', ''js'', ''jsx'', ''ts'', ''tsx'']]"
  by simp

lemma scanned_config:
  "scanned module_exports p = gmatch (glob_tokens ''./src/**/*.{astro,html,js,jsx,ts,tsx}'') p"
  by (simp add: scanned_def module_exports_def del: glob_tokens.simps)

section \<open>The fields of the configuration\<close>

text \<open>
  C1. The exported configuration object has exactly four top-level fields, \<open>darkMode\<close>,
  \<open>content\<close>, \<open>theme\<close> and \<open>plugins\<close>, and no other. \<open>darkMode\<close> holds a string, the
  strategy selector; \<open>content\<close> an array of strings, the patterns; \<open>theme\<close> an object
  that has the property \<open>extend\<close>, itself an object; \<open>plugins\<close> an array.
\<close>

theorem config_top_level_fields:
  "own_keys module_exports = Some [''darkMode'', ''content'', ''theme'', ''plugins'']
   \<and> (\<exists>d. field ''darkMode'' module_exports = Some (JStr d))
   \<and> (\<exists>c. field ''content'' module_exports = Some (JArr c) \<and> all_strings c)
   \<and> (\<exists>t e. field ''theme'' module_exports = Some t \<and> is_object t
              \<and> field ''extend'' t = Some e \<and> is_object e)
   \<and> (\<exists>p. field ''plugins'' module_exports = Some (JArr p))"
  by (simp add: module_exports_def)

text \<open>
  C2. The \<open>darkMode\<close> field is the string \<open>class\<close>, the class-based strategy.
\<close>

theorem config_darkMode_class:
  "field ''darkMode'' module_exports = Some (JStr ''class'')"
  by (simp add: module_exports_def)

text \<open>
  C3. The \<open>content\<close> field is an array, an ordered list, and every element of it is a
  string.
\<close>

theorem config_content_array_of_strings:
  "\<exists>xs. field ''content'' module_exports = Some (JArr xs) \<and> all_strings xs"
  by (simp add: module_exports_def)

text \<open>
  C4. \<open>theme.extend\<close> is the empty object: it has no entry.
\<close>

theorem config_theme_extend_empty:
  "\<exists>t. field ''theme'' module_exports = Some t \<and> field ''extend'' t = Some (JObj [])"
  by (simp add: module_exports_def)

text \<open>
  C5. The \<open>plugins\<close> field is the empty array.
\<close>

theorem config_plugins_empty:
  "field ''plugins'' module_exports = Some (JArr [])"
  by (simp add: module_exports_def)

text \<open>
  C6. Every field of the configuration holds a value of the kind the consuming tool takes
  there: \<open>darkMode\<close> a string, \<open>content\<close> an array of strings, \<open>theme\<close> an object,
  \<open>plugins\<close> an array.
\<close>

theorem config_well_formed:
  "\<exists>d c t p. field ''darkMode'' module_exports = Some d \<and> is_string d
     \<and> field ''content'' module_exports = Some (JArr c) \<and> all_strings c
     \<and> field ''theme'' module_exports = Some t \<and> is_object t
     \<and> field ''plugins'' module_exports = Some p \<and> is_array p"
  by (simp add: module_exports_def)

section \<open>Evaluating the module\<close>

text \<open>
  C7. Evaluating the configuration module is pure. From any two states it exports the same
  value; it leaves the global object as it was; evaluating it again changes nothing; and
  the exported value contains no function.
\<close>

theorem module_evaluation_pure:
  "exports (module (eval_module s)) = exports (module (eval_module s'))
   \<and> global (eval_module s) = global s
   \<and> eval_module (eval_module s) = eval_module s
   \<and> function_free (exports (module (eval_module s)))"
  by (simp add: eval_module_def module_exports_def)

section \<open>The files scanned\<close>

text \<open>
  C8. The \<open>content\<close> list holds exactly one pattern, the string
  \<^verbatim>\<open>./src/**/*.{astro,html,js,jsx,ts,tsx}\<close>. A file that is scanned lies under
  \<^verbatim>\<open>./src/\<close> and its name ends in a dot and one of the six extensions astro, html, js,
  jsx, ts, tsx; and each of the six extensions is scanned.
\<close>

theorem config_content_single_pattern:
  "field ''content'' module_exports = Some (JArr [JStr ''./src/**/*.{astro,html,js,jsx,ts,tsx}''])
   \<and> (scanned module_exports p \<longrightarrow>
        prefix ''./src/'' p
        \<and> (\<exists>e. e \<in> set [''astro'', ''html'', ''js'', ''jsx'', ''ts'', ''tsx'']
                 \<and> suffix (''.'' @ e) p))
   \<and> list_all (\<lambda>e. scanned module_exports (''./src/pages/index.'' @ e))
        [''astro'', ''html'', ''js'', ''jsx'', ''ts'', ''tsx'']"
proof (intro conjI impI)
  show "field ''content'' module_exports = Some (JArr [JStr ''./src/**/*.{astro,html,js,jsx,ts,tsx}''])"
    by (simp add: module_exports_def)
next
  assume "scanned module_exports p"
  then have m: "gmatch (map Lit ''./src/'' @ [Dirs, Star, Lit CHR ''.'',
       Braces [''astro'', ''html'', ''js'', ''jsx'', ''ts'', ''tsx'']]) p"
    by (simp only: scanned_config glob_tokens_content)
  then show "prefix ''./src/'' p" by (rule gmatch_literal_prefix)
  from m have "gmatch ((map Lit ''./src/'' @ [Dirs, Star]) @ [Lit CHR ''.'',
       Braces [''astro'', ''html'', ''js'', ''jsx'', ''ts'', ''tsx'']]) p"
    by simp
  from gmatch_extension [OF this]
  show "\<exists>e. e \<in> set [''astro'', ''html'', ''js'', ''jsx'', ''ts'', ''tsx''] \<and> suffix (''.'' @ e) p"
    by simp
next
  show "list_all (\<lambda>e. scanned module_exports (''./src/pages/index.'' @ e))
        [''astro'', ''html'', ''js'', ''jsx'', ''ts'', ''tsx'']"
    by (simp add: scanned_config)
qed

text \<open>
  The page \<^verbatim>\<open>./src/pages/index.astro\<close> is scanned, lies under \<^verbatim>\<open>./src/\<close> and has the
  extension astro.
\<close>

theorem config_content_single_pattern_witness:
  "scanned module_exports ''./src/pages/index.astro''
   \<and> prefix ''./src/'' ''./src/pages/index.astro''
   \<and> suffix ''.astro'' ''./src/pages/index.astro''"
proof -
  have s: "scanned module_exports ''./src/pages/index.astro''"
    by (simp add: scanned_config)
  have x: "suffix ''.astro'' ''./src/pages/index.astro''"
    by (simp add: suffix_def)
  from s x config_content_single_pattern [of "''./src/pages/index.astro''"]
  show ?thesis by blast
qed

section \<open>The theme\<close>

text \<open>
  C9. The \<open>theme\<close> object has the single key \<open>extend\<close>. So it replaces no key of the
  default theme, and the theme the tool resolves is its default theme unchanged, whatever
  that default and the tool's way of merging are.
\<close>

theorem config_theme_only_extend:
  "\<exists>t. field ''theme'' module_exports = Some t
       \<and> own_keys t = Some [''extend'']
       \<and> theme_replacements t = []
       \<and> resolve_theme mrg dflt t = dflt"
  by (simp add: module_exports_def resolve_theme_def defaults_into_def)

end
